theory Spec2Isabelle
  imports Main "HOL-Library.Word"
begin

unbundle bit_operations_syntax

section \<open>The rule no-base-to-string: data model\<close>

text \<open>
  The verdict of the classifier, the enum \<^verbatim>\<open>Usefulness\<close> of the rule
  (\<^verbatim>\<open>Always = 'always'\<close>, \<^verbatim>\<open>Never = 'will'\<close>, \<^verbatim>\<open>Sometimes = 'may'\<close>,
  \<^verbatim>\<open>Function = 'function'\<close>).
\<close>

datatype Usefulness = Always | Never | Sometimes | Function

text \<open>
  The rule's options object: both fields are optional in the type \<^verbatim>\<open>Options\<close>, so each
  is absent (\<open>None\<close>) or present.
\<close>

record options =
  ignoredTypeNames :: "string list option"
  rejectFunctions :: "bool option"

text \<open>
  What the rule reads of the TypeScript compiler's objects. A declaration is read only
  through its \<^verbatim>\<open>parent\<close> node; of that node the rule asks whether it is an interface
  declaration and, only then, for \<^verbatim>\<open>parent.name.text\<close>.
\<close>

datatype node = InterfaceDeclaration (name_text: string) | OtherNode

record Declaration =
  parent :: node

text \<open>
  A symbol is read through \<^verbatim>\<open>getDeclarations()\<close>, which yields an array or
  \<^verbatim>\<open>undefined\<close>; a call signature is only counted.
\<close>

datatype symbol = Symbol (getDeclarations: "Declaration list option")

datatype signature = Signature

text \<open>
  A \<^verbatim>\<open>ts.Type\<close> with the answers to the queries the rule makes on it:
  \<^verbatim>\<open>type.flags\<close> (a 32-bit mask), \<^verbatim>\<open>checker.getPropertyOfType(type, 'toString')\<close>
  (a symbol or \<^verbatim>\<open>undefined\<close>), \<^verbatim>\<open>type.getCallSignatures()\<close>,
  \<^verbatim>\<open>util.getTypeName(checker, type)\<close>, \<^verbatim>\<open>type.isIntersection()\<close>,
  \<^verbatim>\<open>type.isUnion()\<close> and the constituents \<^verbatim>\<open>type.types\<close>.
\<close>

datatype ts_type = TsType
  (flags: "32 word")
  (getPropertyOfType_toString: "symbol option")
  (getCallSignatures: "signature list")
  (getTypeName: string)
  (isIntersection: bool)
  (isUnion: bool)
  (types: "ts_type list")

text \<open>
  The two members of the compiler's enum \<^verbatim>\<open>ts.TypeFlags\<close> that the rule tests,
  with the values the \<^verbatim>\<open>typescript\<close> package gives them (\<^verbatim>\<open>1 << 4\<close> and
  \<^verbatim>\<open>1 << 9\<close>). The package is an external dependency; no theorem below depends on
  the two values other than through these names.
\<close>

definition TypeFlags_Boolean :: "32 word" where
  "TypeFlags_Boolean = 16"

definition TypeFlags_BooleanLiteral :: "32 word" where
  "TypeFlags_BooleanLiteral = 512"

section \<open>The classifier\<close>

text \<open>JavaScript truthiness of an optional boolean (\<^verbatim>\<open>undefined\<close> is falsy).\<close>

fun truthy :: "bool option \<Rightarrow> bool" where
  "truthy None = False"
| "truthy (Some b) = b"

text \<open>\<^verbatim>\<open>const ignoredTypeNames = option.ignoredTypeNames ?? []\<close>\<close>

definition ignoredTypeNames_of :: "options \<Rightarrow> string list" where
  "ignoredTypeNames_of opt = (case ignoredTypeNames opt of None \<Rightarrow> [] | Some ns \<Rightarrow> ns)"

text \<open>\<^verbatim>\<open>const declarations = toString?.getDeclarations()\<close>\<close>

definition declarations_of :: "symbol option \<Rightarrow> Declaration list option" where
  "declarations_of toString = (case toString of None \<Rightarrow> None | Some s \<Rightarrow> getDeclarations s)"

text \<open>
  The callback of \<^verbatim>\<open>declarations.every\<close>:
  \<^verbatim>\<open>!ts.isInterfaceDeclaration(parent) || parent.name.text !== 'Object'\<close>
\<close>

fun not_declared_in_Object :: "Declaration \<Rightarrow> bool" where
  "not_declared_in_Object d =
     (case parent d of
        OtherNode \<Rightarrow> True
      | InterfaceDeclaration n \<Rightarrow> n \<noteq> ''Object'')"

text \<open>
  \<^verbatim>\<open>type.flags & ts.TypeFlags.Boolean || type.flags & ts.TypeFlags.BooleanLiteral\<close>:
  a number is truthy when it is not zero.
\<close>

definition boolean_flags :: "32 word \<Rightarrow> bool" where
  "boolean_flags f \<longleftrightarrow> f AND TypeFlags_Boolean \<noteq> 0 \<or> f AND TypeFlags_BooleanLiteral \<noteq> 0"

text \<open>
  The function \<^verbatim>\<open>collectToStringCertainty\<close> with its two loops over
  \<^verbatim>\<open>type.types\<close>. The loop of the intersection branch returns at the first constituent
  whose verdict is \<open>Always\<close>; the loop of the union branch carries the two flags
  \<^verbatim>\<open>allSubtypesUseful\<close> and \<^verbatim>\<open>someSubtypeUseful\<close>.
\<close>

fun collectToStringCertainty :: "options \<Rightarrow> ts_type \<Rightarrow> Usefulness"
  and intersection_loop :: "options \<Rightarrow> ts_type list \<Rightarrow> Usefulness"
  and union_loop :: "options \<Rightarrow> ts_type list \<Rightarrow> bool \<Rightarrow> bool \<Rightarrow> bool \<times> bool"
where
  "collectToStringCertainty opt (TsType fl toString callSignatures tname isInter isUn tys) =
     (if truthy (rejectFunctions opt) \<and> length callSignatures > 0 then Function
      else case declarations_of toString of
        None \<Rightarrow> Always
      | Some declarations \<Rightarrow>
          if length declarations = 0 then Always
          else if boolean_flags fl then Always
          else if tname \<in> set (ignoredTypeNames_of opt) then Always
          else if list_all not_declared_in_Object declarations then Always
          else if isInter then intersection_loop opt tys
          else if \<not> isUn then Never
          else (case union_loop opt tys True False of
                  (allSubtypesUseful, someSubtypeUseful) \<Rightarrow>
                    if allSubtypesUseful \<and> someSubtypeUseful then Always
                    else if someSubtypeUseful then Sometimes
                    else Never))"
| "intersection_loop opt [] = Never"
| "intersection_loop opt (subType # rest) =
     (if collectToStringCertainty opt subType = Always then Always
      else intersection_loop opt rest)"
| "union_loop opt [] allSubtypesUseful someSubtypeUseful =
     (allSubtypesUseful, someSubtypeUseful)"
| "union_loop opt (subType # rest) allSubtypesUseful someSubtypeUseful =
     (let subtypeUsefulness = collectToStringCertainty opt subType;
          allSubtypesUseful' =
            (if subtypeUsefulness \<noteq> Always \<and> allSubtypesUseful then False
             else allSubtypesUseful);
          someSubtypeUseful' =
            (if subtypeUsefulness \<noteq> Never \<and> \<not> someSubtypeUseful then True
             else someSubtypeUseful)
      in union_loop opt rest allSubtypesUseful' someSubtypeUseful')"

text \<open>
  The conjunction of the negated guards of the five early returns that precede the
  decomposition of intersections and unions: a type satisfies it exactly when control
  reaches the test \<^verbatim>\<open>type.isIntersection()\<close>.
\<close>

definition reaches_decomposition :: "options \<Rightarrow> ts_type \<Rightarrow> bool" where
  "reaches_decomposition opt t \<longleftrightarrow>
     \<not> (truthy (rejectFunctions opt) \<and> length (getCallSignatures t) > 0) \<and>
     (case declarations_of (getPropertyOfType_toString t) of
        None \<Rightarrow> False
      | Some declarations \<Rightarrow>
          length declarations \<noteq> 0 \<and>
          \<not> boolean_flags (flags t) \<and>
          getTypeName t \<notin> set (ignoredTypeNames_of opt) \<and>
          \<not> list_all not_declared_in_Object declarations)"

text \<open>The rule's \<^verbatim>\<open>defaultOptions\<close>.\<close>

definition defaultOptions :: options where
  "defaultOptions =
     \<lparr>ignoredTypeNames = Some [''Error'', ''RegExp'', ''URL'', ''URLSearchParams''],
      rejectFunctions = Some False\<rparr>"

text \<open>
  Modelled from the spec: the merge of the options a user supplies with
  \<^verbatim>\<open>defaultOptions\<close>, which \<^verbatim>\<open>util.createRule\<close> performs (its helper
  \<^verbatim>\<open>applyDefault\<close>) before it calls \<^verbatim>\<open>create\<close>, and whose code is not among the
  sources. The specification gives each of the two settings a default
  (\<^verbatim>\<open>ignoredTypeNames\<close>: a fixed set of safe names, \<^verbatim>\<open>rejectFunctions\<close>: false): a
  setting that is not supplied takes its default, a supplied one is kept, and no options
  at all give the defaults.
\<close>

definition applyDefault :: "options \<Rightarrow> options option \<Rightarrow> options" where
  "applyDefault defaults userOptions =
     (case userOptions of
        None \<Rightarrow> defaults
      | Some user \<Rightarrow>
          \<lparr>ignoredTypeNames =
             (case ignoredTypeNames user of
                None \<Rightarrow> ignoredTypeNames defaults
              | Some names \<Rightarrow> Some names),
           rejectFunctions =
             (case rejectFunctions user of
                None \<Rightarrow> rejectFunctions defaults
              | Some b \<Rightarrow> Some b)\<rparr>)"

text \<open>
  The \<^verbatim>\<open>option\<close> that \<^verbatim>\<open>create(context, [option])\<close> receives for the options of a
  user, absent (\<open>None\<close>) when none are supplied.
\<close>

definition create_option :: "options option \<Rightarrow> options" where
  "create_option userOptions = applyDefault defaultOptions userOptions"

section \<open>Recursion depth\<close>

text \<open>
  The same function, returning beside its verdict the depth of the recursion under the
  call: \<open>0\<close> when the call makes no recursive call, and otherwise one more than the
  deepest of the recursive calls it makes. Each loop carries the deepest value so far.
\<close>

fun collect_depth :: "options \<Rightarrow> ts_type \<Rightarrow> Usefulness \<times> nat"
  and intersection_loop_depth :: "options \<Rightarrow> ts_type list \<Rightarrow> nat \<Rightarrow> Usefulness \<times> nat"
  and union_loop_depth ::
    "options \<Rightarrow> ts_type list \<Rightarrow> bool \<Rightarrow> bool \<Rightarrow> nat \<Rightarrow> (bool \<times> bool) \<times> nat"
where
  "collect_depth opt (TsType fl toString callSignatures tname isInter isUn tys) =
     (if truthy (rejectFunctions opt) \<and> length callSignatures > 0 then (Function, 0)
      else case declarations_of toString of
        None \<Rightarrow> (Always, 0)
      | Some declarations \<Rightarrow>
          if length declarations = 0 then (Always, 0)
          else if boolean_flags fl then (Always, 0)
          else if tname \<in> set (ignoredTypeNames_of opt) then (Always, 0)
          else if list_all not_declared_in_Object declarations then (Always, 0)
          else if isInter then intersection_loop_depth opt tys 0
          else if \<not> isUn then (Never, 0)
          else (case union_loop_depth opt tys True False 0 of
                  ((allSubtypesUseful, someSubtypeUseful), d) \<Rightarrow>
                    (if allSubtypesUseful \<and> someSubtypeUseful then Always
                     else if someSubtypeUseful then Sometimes
                     else Never, d)))"
| "intersection_loop_depth opt [] d = (Never, d)"
| "intersection_loop_depth opt (subType # rest) d =
     (case collect_depth opt subType of
        (subtypeUsefulness, k) \<Rightarrow>
          if subtypeUsefulness = Always then (Always, max d (Suc k))
          else intersection_loop_depth opt rest (max d (Suc k)))"
| "union_loop_depth opt [] allSubtypesUseful someSubtypeUseful d =
     ((allSubtypesUseful, someSubtypeUseful), d)"
| "union_loop_depth opt (subType # rest) allSubtypesUseful someSubtypeUseful d =
     (case collect_depth opt subType of
        (subtypeUsefulness, k) \<Rightarrow>
          union_loop_depth opt rest
            (if subtypeUsefulness \<noteq> Always \<and> allSubtypesUseful then False
             else allSubtypesUseful)
            (if subtypeUsefulness \<noteq> Never \<and> \<not> someSubtypeUseful then True
             else someSubtypeUseful)
            (max d (Suc k)))"

text \<open>
  The nesting depth of a type's composite structure: \<open>0\<close> for a type that is neither an
  intersection nor a union, and one more than the deepest constituent otherwise.
\<close>

fun nesting_depth :: "ts_type \<Rightarrow> nat"
  and max_nesting_depth :: "ts_type list \<Rightarrow> nat"
where
  "nesting_depth (TsType fl toString callSignatures tname isInter isUn tys) =
     (if isInter \<or> isUn then Suc (max_nesting_depth tys) else 0)"
| "max_nesting_depth [] = 0"
| "max_nesting_depth (t # ts) = max (nesting_depth t) (max_nesting_depth ts)"

section \<open>Example types\<close>

text \<open>
  Declarations of \<^verbatim>\<open>toString\<close> as the compiler reports them: in the interface
  \<^verbatim>\<open>Object\<close> of the standard library, in its interface \<^verbatim>\<open>Function\<close>, and in
  a user's class (whose node is not an interface declaration).
\<close>

definition objectDecl :: Declaration where
  "objectDecl = \<lparr>parent = InterfaceDeclaration ''Object''\<rparr>"

definition functionDecl :: Declaration where
  "functionDecl = \<lparr>parent = InterfaceDeclaration ''Function''\<rparr>"

definition classDecl :: Declaration where
  "classDecl = \<lparr>parent = OtherNode\<rparr>"

text \<open>
  An object type that inherits \<^verbatim>\<open>toString\<close> from \<^verbatim>\<open>Object\<close>, a function type, a
  class with a \<^verbatim>\<open>toString\<close> of its own, the literal type \<^verbatim>\<open>true\<close> whose
  \<^verbatim>\<open>toString\<close> is found in \<^verbatim>\<open>Object\<close> only, the type \<^verbatim>\<open>Error\<close>, a callable
  type named \<^verbatim>\<open>Error\<close>, and a type without a \<^verbatim>\<open>toString\<close> property.
\<close>

definition plainObject :: ts_type where
  "plainObject = TsType 524288 (Some (Symbol (Some [objectDecl]))) [] ''{ a: number; }'' False False []"

definition fnType :: ts_type where
  "fnType = TsType 524288 (Some (Symbol (Some [functionDecl]))) [Signature] ''() => void'' False False []"

definition customType :: ts_type where
  "customType = TsType 524288 (Some (Symbol (Some [classDecl]))) [] ''Foo'' False False []"

definition trueType :: ts_type where
  "trueType = TsType 512 (Some (Symbol (Some [objectDecl]))) [] ''true'' False False []"

definition errorType :: ts_type where
  "errorType = TsType 524288 (Some (Symbol (Some [objectDecl]))) [] ''Error'' False False []"

definition callableError :: ts_type where
  "callableError = TsType 524288 (Some (Symbol (Some [objectDecl]))) [Signature] ''Error'' False False []"

definition noToString :: ts_type where
  "noToString = TsType 1 None [] ''any'' False False []"

text \<open>
  The union of the function type and the object type, the union of the class and the
  object type, and the intersection of the object type and the class.
\<close>

definition fnOrObject :: ts_type where
  "fnOrObject =
     TsType 1048576 (Some (Symbol (Some [functionDecl, objectDecl]))) []
       ''(() => void) | { a: number; }'' False True [fnType, plainObject]"

definition customOrObject :: ts_type where
  "customOrObject =
     TsType 1048576 (Some (Symbol (Some [classDecl, objectDecl]))) []
       ''Foo | { a: number; }'' False True [customType, plainObject]"

definition objectAndCustom :: ts_type where
  "objectAndCustom =
     TsType 2097152 (Some (Symbol (Some [objectDecl, classDecl]))) []
       ''{ a: number; } & Foo'' True False [plainObject, customType]"

text \<open>Options that reject functions and ignore no name; options that also ignore \<^verbatim>\<open>Error\<close>.\<close>

definition rejectOptions :: options where
  "rejectOptions = \<lparr>ignoredTypeNames = Some [], rejectFunctions = Some True\<rparr>"

definition rejectIgnoreError :: options where
  "rejectIgnoreError = \<lparr>ignoredTypeNames = Some [''Error''], rejectFunctions = Some True\<rparr>"

section \<open>Auxiliary facts\<close>

text \<open>The defining equation of the classifier, read through the selectors of a type.\<close>

lemma collect_unfold:
  "collectToStringCertainty opt t =
     (if truthy (rejectFunctions opt) \<and> length (getCallSignatures t) > 0 then Function
      else case declarations_of (getPropertyOfType_toString t) of
        None \<Rightarrow> Always
      | Some declarations \<Rightarrow>
          if length declarations = 0 then Always
          else if boolean_flags (flags t) then Always
          else if getTypeName t \<in> set (ignoredTypeNames_of opt) then Always
          else if list_all not_declared_in_Object declarations then Always
          else if isIntersection t then intersection_loop opt (types t)
          else if \<not> isUnion t then Never
          else (case union_loop opt (types t) True False of
                  (allSubtypesUseful, someSubtypeUseful) \<Rightarrow>
                    if allSubtypesUseful \<and> someSubtypeUseful then Always
                    else if someSubtypeUseful then Sometimes
                    else Never))"
  by (cases t) (simp split: option.splits)

text \<open>What the two loops compute, in terms of the verdicts of the constituents.\<close>

lemma intersection_loop_eq:
  "intersection_loop opt ts =
     (if \<exists>s \<in> set ts. collectToStringCertainty opt s = Always then Always else Never)"
  by (induction ts) simp_all

lemma union_loop_eq:
  "union_loop opt ts a s =
     (a \<and> (\<forall>x \<in> set ts. collectToStringCertainty opt x = Always),
      s \<or> (\<exists>x \<in> set ts. collectToStringCertainty opt x \<noteq> Never))"
  by (induction ts arbitrary: a s) (auto simp: Let_def)

lemma reaches_collect:
  assumes "reaches_decomposition opt t"
  shows "collectToStringCertainty opt t =
     (if isIntersection t then intersection_loop opt (types t)
      else if \<not> isUnion t then Never
      else (case union_loop opt (types t) True False of
              (allSubtypesUseful, someSubtypeUseful) \<Rightarrow>
                if allSubtypesUseful \<and> someSubtypeUseful then Always
                else if someSubtypeUseful then Sometimes
                else Never))"
proof -
  from assms obtain ds where ds: "declarations_of (getPropertyOfType_toString t) = Some ds"
    and rest: "length ds \<noteq> 0" "\<not> boolean_flags (flags t)"
      "getTypeName t \<notin> set (ignoredTypeNames_of opt)"
      "\<not> list_all not_declared_in_Object ds"
    and fn: "\<not> (truthy (rejectFunctions opt) \<and> length (getCallSignatures t) > 0)"
    unfolding reaches_decomposition_def by (auto split: option.splits)
  show ?thesis
    using fn rest by (subst collect_unfold) (auto simp: ds)
qed

lemma not_declared_in_Object_iff:
  "not_declared_in_Object d \<longleftrightarrow> parent d \<noteq> InterfaceDeclaration ''Object''"
  by (cases "parent d") simp_all

lemma loops_never_Function:
  "intersection_loop opt ts \<noteq> Function"
  "(case union_loop opt ts a s of
      (allSubtypesUseful, someSubtypeUseful) \<Rightarrow>
        if allSubtypesUseful \<and> someSubtypeUseful then Always
        else if someSubtypeUseful then Sometimes
        else Never) \<noteq> Function"
  by (simp_all add: intersection_loop_eq union_loop_eq)

text \<open>The instrumented function returns the verdict of the classifier.\<close>

lemma fst_verdict_pair:
  "fst (case p of ((a, s), d) \<Rightarrow> (f a s, d)) = (case fst p of (a, s) \<Rightarrow> f a s)"
  by (cases p) (simp split: prod.splits)

lemma snd_verdict_pair:
  "snd (case p of ((a, s), d) \<Rightarrow> (f a s, d)) = snd p"
  by (cases p) (simp split: prod.splits)

lemma intersection_loop_depth_verdict:
  assumes "\<And>x. x \<in> set ts \<Longrightarrow> fst (collect_depth opt x) = collectToStringCertainty opt x"
  shows "fst (intersection_loop_depth opt ts d) = intersection_loop opt ts"
  using assms
proof (induction ts arbitrary: d)
  case Nil
  show ?case by simp
next
  case (Cons x xs)
  have hd: "fst (collect_depth opt x) = collectToStringCertainty opt x"
    by (simp add: Cons.prems)
  have tl: "fst (intersection_loop_depth opt xs e) = intersection_loop opt xs" for e
    by (rule Cons.IH) (simp add: Cons.prems)
  show ?case
    using hd by (cases "collect_depth opt x") (simp add: tl)
qed

lemma union_loop_depth_verdict:
  assumes "\<And>x. x \<in> set ts \<Longrightarrow> fst (collect_depth opt x) = collectToStringCertainty opt x"
  shows "fst (union_loop_depth opt ts a s d) = union_loop opt ts a s"
  using assms
proof (induction ts arbitrary: a s d)
  case Nil
  show ?case by simp
next
  case (Cons x xs)
  have hd: "fst (collect_depth opt x) = collectToStringCertainty opt x"
    by (simp add: Cons.prems)
  have tl: "fst (union_loop_depth opt xs b c e) = union_loop opt xs b c" for b c e
    by (rule Cons.IH) (simp add: Cons.prems)
  show ?case
    using hd by (cases "collect_depth opt x") (simp add: tl Let_def)
qed

lemma collect_depth_verdict:
  "fst (collect_depth opt t) = collectToStringCertainty opt t"
proof (induction t)
  case (TsType fl toString callSignatures tname isInter isUn tys)
  have inter: "fst (intersection_loop_depth opt tys 0) = intersection_loop opt tys"
    by (rule intersection_loop_depth_verdict) (rule TsType.IH)
  have un: "fst (union_loop_depth opt tys True False 0) = union_loop opt tys True False"
    by (rule union_loop_depth_verdict) (rule TsType.IH)
  show ?case
    by (simp add: inter un fst_verdict_pair split: option.splits)
qed

text \<open>The recursion under a call is no deeper than the nesting of the type.\<close>

lemma intersection_loop_depth_bound:
  assumes "\<And>x. x \<in> set ts \<Longrightarrow> snd (collect_depth opt x) \<le> nesting_depth x"
  shows "snd (intersection_loop_depth opt ts d) \<le> max d (Suc (max_nesting_depth ts))"
  using assms
proof (induction ts arbitrary: d)
  case Nil
  show ?case by simp
next
  case (Cons x xs)
  have hd: "snd (collect_depth opt x) \<le> nesting_depth x"
    by (simp add: Cons.prems)
  have tl: "snd (intersection_loop_depth opt xs e) \<le> max e (Suc (max_nesting_depth xs))" for e
    by (rule Cons.IH) (simp add: Cons.prems)
  show ?case
  proof (cases "collect_depth opt x")
    case (Pair u k)
    with hd have k: "k \<le> nesting_depth x" by simp
    show ?thesis
      using k tl [of "max d (Suc k)"] by (simp add: Pair) linarith
  qed
qed

lemma union_loop_depth_bound:
  assumes "\<And>x. x \<in> set ts \<Longrightarrow> snd (collect_depth opt x) \<le> nesting_depth x"
  shows "snd (union_loop_depth opt ts a s d) \<le> max d (Suc (max_nesting_depth ts))"
  using assms
proof (induction ts arbitrary: a s d)
  case Nil
  show ?case by simp
next
  case (Cons x xs)
  have hd: "snd (collect_depth opt x) \<le> nesting_depth x"
    by (simp add: Cons.prems)
  have tl: "snd (union_loop_depth opt xs b c e) \<le> max e (Suc (max_nesting_depth xs))"
    for b c e
    by (rule Cons.IH) (simp add: Cons.prems)
  show ?case
  proof (cases "collect_depth opt x")
    case (Pair u k)
    with hd have k: "k \<le> nesting_depth x" by simp
    let ?b = "if u \<noteq> Always \<and> a then False else a"
    let ?c = "if u \<noteq> Never \<and> \<not> s then True else s"
    have "snd (union_loop_depth opt (x # xs) a s d)
        = snd (union_loop_depth opt xs ?b ?c (max d (Suc k)))"
      by (simp add: Pair)
    also have "\<dots> \<le> max (max d (Suc k)) (Suc (max_nesting_depth xs))"
      by (rule tl)
    also have "\<dots> \<le> max d (Suc (max_nesting_depth (x # xs)))"
      using k by simp linarith
    finally show ?thesis .
  qed
qed

lemma collect_depth_bound:
  "snd (collect_depth opt t) \<le> nesting_depth t"
proof (induction t)
  case (TsType fl toString callSignatures tname isInter isUn tys)
  have inter: "snd (intersection_loop_depth opt tys 0) \<le> Suc (max_nesting_depth tys)"
    using intersection_loop_depth_bound [of tys opt 0] TsType.IH by simp
  have un: "snd (union_loop_depth opt tys True False 0) \<le> Suc (max_nesting_depth tys)"
    using union_loop_depth_bound [of tys opt True False 0] TsType.IH by simp
  show ?case
    using inter un by (simp add: snd_verdict_pair split: option.splits)
qed

text \<open>The defining equations of the example types and options, for evaluation.\<close>

lemmas example_defs =
  objectDecl_def functionDecl_def classDecl_def plainObject_def fnType_def customType_def
  trueType_def errorType_def callableError_def noToString_def fnOrObject_def
  customOrObject_def objectAndCustom_def rejectOptions_def rejectIgnoreError_def
  defaultOptions_def ignoredTypeNames_of_def declarations_of_def boolean_flags_def
  TypeFlags_Boolean_def TypeFlags_BooleanLiteral_def reaches_decomposition_def

section \<open>The merge of a union\<close>

text \<open>
  Claim C1, as the code has it. For a union type on which none of the five early returns
  fires, let the verdicts of its constituents be given. If there is at least one
  constituent and every verdict is \<open>Always\<close>, the union's verdict is \<open>Always\<close>. If
  at least one verdict is other than \<open>Never\<close> (that is \<open>Always\<close>, \<open>Sometimes\<close> or
  \<open>Function\<close>) and not every verdict is \<open>Always\<close>, the union's verdict is
  \<open>Sometimes\<close>. If every verdict is \<open>Never\<close>, the union's verdict is \<open>Never\<close>.
\<close>

theorem union_merge_law:
  assumes "reaches_decomposition opt t" and "\<not> isIntersection t" and "isUnion t"
  shows "(types t \<noteq> [] \<and> (\<forall>s \<in> set (types t). collectToStringCertainty opt s = Always)
            \<longrightarrow> collectToStringCertainty opt t = Always)
       \<and> ((\<exists>s \<in> set (types t). collectToStringCertainty opt s \<noteq> Never)
            \<and> \<not> (\<forall>s \<in> set (types t). collectToStringCertainty opt s = Always)
            \<longrightarrow> collectToStringCertainty opt t = Sometimes)
       \<and> ((\<forall>s \<in> set (types t). collectToStringCertainty opt s = Never)
            \<longrightarrow> collectToStringCertainty opt t = Never)"
proof -
  have eq: "collectToStringCertainty opt t =
      (if (\<forall>x \<in> set (types t). collectToStringCertainty opt x = Always)
           \<and> (\<exists>x \<in> set (types t). collectToStringCertainty opt x \<noteq> Never) then Always
       else if (\<exists>x \<in> set (types t). collectToStringCertainty opt x \<noteq> Never) then Sometimes
       else Never)"
    using assms by (simp add: reaches_collect union_loop_eq)
  show ?thesis
  proof (intro conjI impI)
    assume h: "types t \<noteq> [] \<and> (\<forall>s \<in> set (types t). collectToStringCertainty opt s = Always)"
    then obtain x where "x \<in> set (types t)" by (cases "types t") auto
    with h have "\<exists>x \<in> set (types t). collectToStringCertainty opt x \<noteq> Never" by auto
    with h show "collectToStringCertainty opt t = Always" by (simp add: eq)
  next
    assume "(\<exists>s \<in> set (types t). collectToStringCertainty opt s \<noteq> Never)
            \<and> \<not> (\<forall>s \<in> set (types t). collectToStringCertainty opt s = Always)"
    then show "collectToStringCertainty opt t = Sometimes" by (simp add: eq)
  next
    assume "\<forall>s \<in> set (types t). collectToStringCertainty opt s = Never"
    then show "collectToStringCertainty opt t = Never" by (simp add: eq)
  qed
qed

text \<open>
  The law at the union of a class with its own \<^verbatim>\<open>toString\<close> and an object type that
  relies on \<^verbatim>\<open>Object\<close>: the verdicts are \<open>Always\<close> and \<open>Never\<close>, the union's is
  \<open>Sometimes\<close>.
\<close>

theorem union_merge_law_witness:
  "reaches_decomposition defaultOptions customOrObject
   \<and> \<not> isIntersection customOrObject \<and> isUnion customOrObject
   \<and> map (collectToStringCertainty defaultOptions) (types customOrObject) = [Always, Never]
   \<and> collectToStringCertainty defaultOptions customOrObject = Sometimes"
proof -
  have r: "reaches_decomposition defaultOptions customOrObject"
    by (simp add: example_defs)
  have i: "\<not> isIntersection customOrObject" and u: "isUnion customOrObject"
    by (simp_all add: example_defs)
  have vs: "map (collectToStringCertainty defaultOptions) (types customOrObject) = [Always, Never]"
    by (simp add: example_defs)
  have ty: "types customOrObject = [customType, plainObject]"
    by (simp add: example_defs)
  from vs ty have some: "\<exists>s \<in> set (types customOrObject).
      collectToStringCertainty defaultOptions s \<noteq> Never"
    and notall: "\<not> (\<forall>s \<in> set (types customOrObject).
      collectToStringCertainty defaultOptions s = Always)"
    by simp_all
  from union_merge_law [OF r i u] some notall
  have "collectToStringCertainty defaultOptions customOrObject = Sometimes"
    by blast
  with r i u vs show ?thesis by simp
qed

text \<open>
  The claim as the specification words it takes the union's verdict to be \<open>Never\<close>
  whenever no constituent's verdict is \<open>Always\<close>. With functions rejected, the union
  of a function type and an object type that relies on \<^verbatim>\<open>Object\<close> has the constituent
  verdicts \<open>Function\<close> and \<open>Never\<close>, none of them \<open>Always\<close>, and its verdict is
  \<open>Sometimes\<close>.
\<close>

theorem union_merge_counterexample:
  "reaches_decomposition rejectOptions fnOrObject
   \<and> \<not> isIntersection fnOrObject \<and> isUnion fnOrObject
   \<and> map (collectToStringCertainty rejectOptions) (types fnOrObject) = [Function, Never]
   \<and> collectToStringCertainty rejectOptions fnOrObject = Sometimes
   \<and> collectToStringCertainty rejectOptions fnOrObject \<noteq> Never"
  by (simp add: example_defs)

section \<open>The function-rejection rule\<close>

text \<open>
  Claim C2. With \<^verbatim>\<open>rejectFunctions\<close> set to true, every type with at least one call
  signature is classified \<open>Function\<close>, whatever its name and whatever the list of
  ignored names: the test is the first of the function.
\<close>

theorem function_rejection_precedence:
  assumes "rejectFunctions opt = Some True" and "getCallSignatures t \<noteq> []"
  shows "collectToStringCertainty opt t = Function"
  using assms by (subst collect_unfold) simp

text \<open>A callable type named \<^verbatim>\<open>Error\<close>, with \<^verbatim>\<open>Error\<close> among the ignored names.\<close>

theorem function_rejection_precedence_witness:
  "rejectFunctions rejectIgnoreError = Some True
   \<and> getCallSignatures callableError \<noteq> []
   \<and> getTypeName callableError \<in> set (ignoredTypeNames_of rejectIgnoreError)
   \<and> collectToStringCertainty rejectIgnoreError callableError = Function"
proof -
  have a: "rejectFunctions rejectIgnoreError = Some True"
    by (simp add: example_defs)
  have b: "getCallSignatures callableError \<noteq> []"
    by (simp add: example_defs)
  have c: "getTypeName callableError \<in> set (ignoredTypeNames_of rejectIgnoreError)"
    by (simp add: example_defs)
  from function_rejection_precedence [OF a b] a b c show ?thesis by simp
qed

section \<open>The merge of an intersection\<close>

text \<open>
  Claim C3. For an intersection type on which none of the five early returns fires: if
  some constituent's verdict is \<open>Always\<close> the intersection's verdict is \<open>Always\<close>,
  otherwise it is \<open>Never\<close>; it is never \<open>Sometimes\<close>.
\<close>

theorem intersection_merge_law:
  assumes "reaches_decomposition opt t" and "isIntersection t"
  shows "((\<exists>s \<in> set (types t). collectToStringCertainty opt s = Always)
            \<longrightarrow> collectToStringCertainty opt t = Always)
       \<and> (\<not> (\<exists>s \<in> set (types t). collectToStringCertainty opt s = Always)
            \<longrightarrow> collectToStringCertainty opt t = Never)
       \<and> collectToStringCertainty opt t \<noteq> Sometimes"
  using assms by (simp add: reaches_collect intersection_loop_eq)

text \<open>
  The intersection of an object type relying on \<^verbatim>\<open>Object\<close> and a class with its own
  \<^verbatim>\<open>toString\<close>: verdicts \<open>Never\<close> and \<open>Always\<close>, merged to \<open>Always\<close>.
\<close>

theorem intersection_merge_law_witness:
  "reaches_decomposition defaultOptions objectAndCustom \<and> isIntersection objectAndCustom
   \<and> map (collectToStringCertainty defaultOptions) (types objectAndCustom) = [Never, Always]
   \<and> collectToStringCertainty defaultOptions objectAndCustom = Always"
proof -
  have r: "reaches_decomposition defaultOptions objectAndCustom"
    by (simp add: example_defs)
  have i: "isIntersection objectAndCustom"
    by (simp add: example_defs)
  have vs: "map (collectToStringCertainty defaultOptions) (types objectAndCustom) = [Never, Always]"
    by (simp add: example_defs)
  have ty: "types objectAndCustom = [plainObject, customType]"
    by (simp add: example_defs)
  from vs ty have some: "\<exists>s \<in> set (types objectAndCustom).
      collectToStringCertainty defaultOptions s = Always"
    by simp
  from intersection_merge_law [OF r i] some
  have "collectToStringCertainty defaultOptions objectAndCustom = Always"
    by blast
  with r i vs show ?thesis by simp
qed


section \<open>The early returns with verdict Always\<close>

text \<open>
  Claim C4. When the function-rejection rule does not fire (\<^verbatim>\<open>rejectFunctions\<close> is not
  true, or the type has no call signature) and the type has no \<^verbatim>\<open>toString\<close> property,
  or the property's symbol has no declarations (none reported, or an empty array), the
  verdict is \<open>Always\<close>.
\<close>

theorem absence_of_evidence:
  assumes "\<not> truthy (rejectFunctions opt) \<or> getCallSignatures t = []"
    and "getPropertyOfType_toString t = None
         \<or> (\<exists>s. getPropertyOfType_toString t = Some s
                \<and> (getDeclarations s = None \<or> getDeclarations s = Some []))"
  shows "collectToStringCertainty opt t = Always"
proof -
  from assms(2) have "declarations_of (getPropertyOfType_toString t) = None
      \<or> declarations_of (getPropertyOfType_toString t) = Some []"
    by (auto simp: declarations_of_def)
  with assms(1) show ?thesis
    by (subst collect_unfold) auto
qed

text \<open>
  A type without the property, with functions rejected; and a type whose symbol reports
  an empty array of declarations, under the default options.
\<close>

theorem absence_of_evidence_witness:
  "getCallSignatures noToString = [] \<and> getPropertyOfType_toString noToString = None
   \<and> collectToStringCertainty rejectOptions noToString = Always
   \<and> \<not> truthy (rejectFunctions defaultOptions)
   \<and> collectToStringCertainty defaultOptions
        (TsType 8 (Some (Symbol (Some []))) [] ''number'' False False []) = Always"
proof -
  have a: "\<not> truthy (rejectFunctions rejectOptions) \<or> getCallSignatures noToString = []"
    by (simp add: example_defs)
  have b: "getPropertyOfType_toString noToString = None
         \<or> (\<exists>s. getPropertyOfType_toString noToString = Some s
                \<and> (getDeclarations s = None \<or> getDeclarations s = Some []))"
    by (simp add: example_defs)
  let ?n = "TsType 8 (Some (Symbol (Some []))) [] ''number'' False False []"
  have c: "\<not> truthy (rejectFunctions defaultOptions) \<or> getCallSignatures ?n = []"
    by (simp add: example_defs)
  have d: "getPropertyOfType_toString ?n = None
         \<or> (\<exists>s. getPropertyOfType_toString ?n = Some s
                \<and> (getDeclarations s = None \<or> getDeclarations s = Some []))"
    by simp
  from absence_of_evidence [OF a b] absence_of_evidence [OF c d] show ?thesis
    by (simp add: example_defs)
qed

text \<open>
  Claim C6. A type whose flags have the bit \<^verbatim>\<open>Boolean\<close> or the bit
  \<^verbatim>\<open>BooleanLiteral\<close>, and which has no call signature, is classified \<open>Always\<close>
  under every configuration.
\<close>

theorem boolean_carve_out:
  assumes "flags t AND TypeFlags_Boolean \<noteq> 0 \<or> flags t AND TypeFlags_BooleanLiteral \<noteq> 0"
    and "getCallSignatures t = []"
  shows "collectToStringCertainty opt t = Always"
proof -
  from assms(1) have "boolean_flags (flags t)"
    by (simp add: boolean_flags_def)
  with assms(2) show ?thesis
    by (subst collect_unfold) (simp split: option.splits)
qed

text \<open>
  The literal type \<^verbatim>\<open>true\<close>, whose \<^verbatim>\<open>toString\<close> is found in \<^verbatim>\<open>Object\<close> only,
  with functions rejected and no ignored name.
\<close>

theorem boolean_carve_out_witness:
  "flags trueType AND TypeFlags_BooleanLiteral \<noteq> 0
   \<and> getCallSignatures trueType = []
   \<and> rejectFunctions rejectOptions = Some True \<and> ignoredTypeNames rejectOptions = Some []
   \<and> collectToStringCertainty rejectOptions trueType = Always"
proof -
  have a: "flags trueType AND TypeFlags_Boolean \<noteq> 0
         \<or> flags trueType AND TypeFlags_BooleanLiteral \<noteq> 0"
    by (simp add: example_defs)
  have b: "getCallSignatures trueType = []"
    by (simp add: example_defs)
  have c: "flags trueType AND TypeFlags_BooleanLiteral \<noteq> 0"
    by (simp add: example_defs)
  from boolean_carve_out [OF a b, of rejectOptions] b c show ?thesis
    by (simp add: rejectOptions_def)
qed

text \<open>
  Claim C7. A type whose name, as \<^verbatim>\<open>util.getTypeName\<close> gives it, is an element of
  \<^verbatim>\<open>ignoredTypeNames\<close> is classified \<open>Always\<close> when \<^verbatim>\<open>rejectFunctions\<close> is not
  true or the type has no call signature.
\<close>

theorem override_list_rule:
  assumes "getTypeName t \<in> set (ignoredTypeNames_of opt)"
    and "\<not> truthy (rejectFunctions opt) \<or> getCallSignatures t = []"
  shows "collectToStringCertainty opt t = Always"
  using assms by (subst collect_unfold) (auto split: option.splits)

text \<open>
  The type \<^verbatim>\<open>Error\<close>, which inherits \<^verbatim>\<open>toString\<close> from \<^verbatim>\<open>Object\<close>, under the
  default options; with no ignored name the same type is classified \<open>Never\<close>.
\<close>

theorem override_list_rule_witness:
  "getTypeName errorType \<in> set (ignoredTypeNames_of defaultOptions)
   \<and> \<not> truthy (rejectFunctions defaultOptions)
   \<and> collectToStringCertainty defaultOptions errorType = Always
   \<and> collectToStringCertainty rejectOptions errorType = Never"
proof -
  have a: "getTypeName errorType \<in> set (ignoredTypeNames_of defaultOptions)"
    by (simp add: example_defs)
  have b: "\<not> truthy (rejectFunctions defaultOptions) \<or> getCallSignatures errorType = []"
    by (simp add: example_defs)
  have c: "collectToStringCertainty rejectOptions errorType = Never"
    by (simp add: example_defs)
  from override_list_rule [OF a b] a c show ?thesis
    by (simp add: defaultOptions_def)
qed

section \<open>The base-stringifier rule and the default\<close>

text \<open>
  Claim C5. Take a type that is neither an intersection nor a union, has neither boolean
  flag, has at least one declaration of \<^verbatim>\<open>toString\<close>, whose name is not ignored, and
  on which the function-rejection rule does not fire. If no declaration's parent is the
  interface declaration named \<^verbatim>\<open>Object\<close>, the verdict is \<open>Always\<close>; if some
  declaration's parent is that interface declaration, the verdict is \<open>Never\<close>.
\<close>

theorem base_stringifier_rule:
  assumes "\<not> isIntersection t" and "\<not> isUnion t"
    and "\<not> boolean_flags (flags t)"
    and "declarations_of (getPropertyOfType_toString t) = Some ds" and "ds \<noteq> []"
    and "getTypeName t \<notin> set (ignoredTypeNames_of opt)"
    and "\<not> truthy (rejectFunctions opt) \<or> getCallSignatures t = []"
  shows "((\<forall>d \<in> set ds. parent d \<noteq> InterfaceDeclaration ''Object'')
            \<longrightarrow> collectToStringCertainty opt t = Always)
       \<and> ((\<exists>d \<in> set ds. parent d = InterfaceDeclaration ''Object'')
            \<longrightarrow> collectToStringCertainty opt t = Never)"
proof -
  have every: "list_all not_declared_in_Object ds
      \<longleftrightarrow> (\<forall>d \<in> set ds. parent d \<noteq> InterfaceDeclaration ''Object'')"
    by (simp add: list_all_iff not_declared_in_Object_iff del: not_declared_in_Object.simps)
  have "collectToStringCertainty opt t =
      (if list_all not_declared_in_Object ds then Always else Never)"
    using assms by (subst collect_unfold) auto
  then show ?thesis
    by (auto simp: every)
qed

text \<open>
  An object type whose only declaration of \<^verbatim>\<open>toString\<close> is in \<^verbatim>\<open>Object\<close> is
  classified \<open>Never\<close>; a class with its own \<^verbatim>\<open>toString\<close> is classified
  \<open>Always\<close>.
\<close>

theorem base_stringifier_rule_witness:
  "\<not> isIntersection plainObject \<and> \<not> isUnion plainObject
   \<and> \<not> boolean_flags (flags plainObject)
   \<and> declarations_of (getPropertyOfType_toString plainObject) = Some [objectDecl]
   \<and> getTypeName plainObject \<notin> set (ignoredTypeNames_of defaultOptions)
   \<and> parent objectDecl = InterfaceDeclaration ''Object''
   \<and> collectToStringCertainty defaultOptions plainObject = Never
   \<and> declarations_of (getPropertyOfType_toString customType) = Some [classDecl]
   \<and> parent classDecl \<noteq> InterfaceDeclaration ''Object''
   \<and> collectToStringCertainty defaultOptions customType = Always"
proof -
  have p: "\<not> isIntersection plainObject" "\<not> isUnion plainObject"
    "\<not> boolean_flags (flags plainObject)"
    "declarations_of (getPropertyOfType_toString plainObject) = Some [objectDecl]"
    "[objectDecl] \<noteq> []"
    "getTypeName plainObject \<notin> set (ignoredTypeNames_of defaultOptions)"
    "\<not> truthy (rejectFunctions defaultOptions) \<or> getCallSignatures plainObject = []"
    by (simp_all add: example_defs)
  have c: "\<not> isIntersection customType" "\<not> isUnion customType"
    "\<not> boolean_flags (flags customType)"
    "declarations_of (getPropertyOfType_toString customType) = Some [classDecl]"
    "[classDecl] \<noteq> []"
    "getTypeName customType \<notin> set (ignoredTypeNames_of defaultOptions)"
    "\<not> truthy (rejectFunctions defaultOptions) \<or> getCallSignatures customType = []"
    by (simp_all add: example_defs)
  have po: "parent objectDecl = InterfaceDeclaration ''Object''"
    and pc: "parent classDecl \<noteq> InterfaceDeclaration ''Object''"
    by (simp_all add: example_defs)
  from base_stringifier_rule [OF p] po
  have n: "collectToStringCertainty defaultOptions plainObject = Never"
    by simp
  from base_stringifier_rule [OF c] pc
  have a: "collectToStringCertainty defaultOptions customType = Always"
    by simp
  from p c po pc n a show ?thesis by simp
qed


section \<open>The verdict Function\<close>

text \<open>
  Claim C8. The verdict that the decomposition of an intersection or a union returns is
  one of \<open>Always\<close>, \<open>Never\<close> and \<open>Sometimes\<close>, never \<open>Function\<close>; and the
  classifier returns \<open>Function\<close> exactly when the function-rejection rule fires on the
  type it is called with.
\<close>

theorem function_only_top_level:
  "(reaches_decomposition opt t \<and> (isIntersection t \<or> isUnion t)
      \<longrightarrow> collectToStringCertainty opt t \<in> {Always, Never, Sometimes})
   \<and> (collectToStringCertainty opt t = Function
      \<longleftrightarrow> truthy (rejectFunctions opt) \<and> getCallSignatures t \<noteq> [])"
proof -
  have fires: "collectToStringCertainty opt t = Function"
    if "truthy (rejectFunctions opt) \<and> getCallSignatures t \<noteq> []"
    using that by (subst collect_unfold) simp
  have silent: "collectToStringCertainty opt t \<noteq> Function"
    if "\<not> (truthy (rejectFunctions opt) \<and> getCallSignatures t \<noteq> [])"
    using that loops_never_Function(1) [of opt "types t"]
      loops_never_Function(2) [of opt "types t" True False]
    by (subst collect_unfold) (auto split: option.splits)
  have merged: "collectToStringCertainty opt t \<in> {Always, Never, Sometimes}"
    if "reaches_decomposition opt t"
  proof -
    from that have "\<not> (truthy (rejectFunctions opt) \<and> getCallSignatures t \<noteq> [])"
      by (simp add: reaches_decomposition_def)
    then have "collectToStringCertainty opt t \<noteq> Function"
      by (rule silent)
    then show ?thesis
      by (cases "collectToStringCertainty opt t") simp_all
  qed
  from fires silent merged show ?thesis by blast
qed

text \<open>
  With functions rejected, the union of a function type and an object type is merged to
  \<open>Sometimes\<close> although one constituent's verdict is \<open>Function\<close>; the function type
  itself is classified \<open>Function\<close>, and under the default options it is not.
\<close>

theorem function_only_top_level_witness:
  "reaches_decomposition rejectOptions fnOrObject \<and> isUnion fnOrObject
   \<and> collectToStringCertainty rejectOptions fnType = Function
   \<and> collectToStringCertainty rejectOptions fnOrObject \<in> {Always, Never, Sometimes}
   \<and> collectToStringCertainty defaultOptions fnType \<noteq> Function"
proof -
  have r: "reaches_decomposition rejectOptions fnOrObject" and u: "isUnion fnOrObject"
    by (simp_all add: example_defs)
  have f: "truthy (rejectFunctions rejectOptions) \<and> getCallSignatures fnType \<noteq> []"
    by (simp add: example_defs)
  have d: "\<not> truthy (rejectFunctions defaultOptions)"
    by (simp add: example_defs)
  from function_only_top_level [of rejectOptions fnOrObject] r u
  have m: "collectToStringCertainty rejectOptions fnOrObject \<in> {Always, Never, Sometimes}"
    by blast
  from function_only_top_level [of rejectOptions fnType] f
  have t: "collectToStringCertainty rejectOptions fnType = Function"
    by blast
  from function_only_top_level [of defaultOptions fnType] d
  have n: "collectToStringCertainty defaultOptions fnType \<noteq> Function"
    by blast
  from r u m t n show ?thesis by blast
qed

section \<open>Totality and recursion depth\<close>

text \<open>
  Claim C9. A type is a finite tree of constituents, and on every type and configuration
  the classifier returns a value, one of \<open>Always\<close>, \<open>Never\<close>, \<open>Sometimes\<close> and
  \<open>Function\<close>: it is a total function whose result type has no error value, accepted
  with a proof that its recursion terminates. The depth of the recursion under a call,
  as the instrumented function counts it beside the same verdict, is at most the nesting
  depth of the type's composite structure.
\<close>

theorem classify_total_and_bounded:
  "collectToStringCertainty opt t \<in> {Always, Never, Sometimes, Function}
   \<and> fst (collect_depth opt t) = collectToStringCertainty opt t
   \<and> snd (collect_depth opt t) \<le> nesting_depth t"
proof (intro conjI)
  show "collectToStringCertainty opt t \<in> {Always, Never, Sometimes, Function}"
    by (cases "collectToStringCertainty opt t") simp_all
  show "fst (collect_depth opt t) = collectToStringCertainty opt t"
    by (rule collect_depth_verdict)
  show "snd (collect_depth opt t) \<le> nesting_depth t"
    by (rule collect_depth_bound)
qed

text \<open>
  A union of two types that are not composite: one level of nesting, one level of
  recursion. A type that is not composite: no recursive call.
\<close>

theorem classify_total_and_bounded_witness:
  "collect_depth rejectOptions fnOrObject = (Sometimes, 1) \<and> nesting_depth fnOrObject = 1
   \<and> collectToStringCertainty rejectOptions fnOrObject = Sometimes
   \<and> collect_depth defaultOptions plainObject = (Never, 0) \<and> nesting_depth plainObject = 0"
proof -
  have a: "collect_depth rejectOptions fnOrObject = (Sometimes, 1)"
    and b: "nesting_depth fnOrObject = 1"
    and c: "collect_depth defaultOptions plainObject = (Never, 0)"
    and d: "nesting_depth plainObject = 0"
    by (simp_all add: example_defs)
  from classify_total_and_bounded [of rejectOptions fnOrObject] a
  have "collectToStringCertainty rejectOptions fnOrObject = Sometimes"
    by simp
  with a b c d show ?thesis by simp
qed

section \<open>The default options\<close>

text \<open>
  Claim C10. When no options are supplied, the option that the rule works with is
  exactly the list of ignored names \<^verbatim>\<open>Error\<close>, \<^verbatim>\<open>RegExp\<close>, \<^verbatim>\<open>URL\<close>,
  \<^verbatim>\<open>URLSearchParams\<close> together with \<^verbatim>\<open>rejectFunctions\<close> false: the classifier
  reads that list, does not reject functions, and so classifies the type \<^verbatim>\<open>Error\<close>
  as \<open>Always\<close> and a function type as \<open>Always\<close>, not \<open>Function\<close>. An option whose two
  fields are both absent would instead leave \<^verbatim>\<open>Error\<close> classified \<open>Never\<close>.
\<close>

theorem default_configuration:
  "create_option None =
     \<lparr>ignoredTypeNames = Some [''Error'', ''RegExp'', ''URL'', ''URLSearchParams''],
      rejectFunctions = Some False\<rparr>
   \<and> ignoredTypeNames_of (create_option None) = [''Error'', ''RegExp'', ''URL'', ''URLSearchParams'']
   \<and> truthy (rejectFunctions (create_option None)) = False
   \<and> collectToStringCertainty (create_option None) errorType = Always
   \<and> collectToStringCertainty (create_option None) fnType = Always
   \<and> collectToStringCertainty \<lparr>ignoredTypeNames = None, rejectFunctions = None\<rparr> errorType = Never"
proof -
  have used: "create_option None =
     \<lparr>ignoredTypeNames = Some [''Error'', ''RegExp'', ''URL'', ''URLSearchParams''],
      rejectFunctions = Some False\<rparr>"
    by (simp add: create_option_def applyDefault_def defaultOptions_def)
  have names: "ignoredTypeNames_of (create_option None)
      = [''Error'', ''RegExp'', ''URL'', ''URLSearchParams'']"
    by (simp add: used ignoredTypeNames_of_def)
  have reject: "truthy (rejectFunctions (create_option None)) = False"
    by (simp add: used)
  have error: "collectToStringCertainty (create_option None) errorType = Always"
    by (simp add: used example_defs)
  have fn: "collectToStringCertainty (create_option None) fnType = Always"
    by (simp add: used example_defs)
  have absent: "collectToStringCertainty \<lparr>ignoredTypeNames = None, rejectFunctions = None\<rparr>
      errorType = Never"
    by (simp add: example_defs)
  from used names reject error fn absent show ?thesis by simp
qed

end
